theory Spec2Isabelle
  imports Main "HOL-Library.Sublist"
begin

section \<open>Bulk creation of Linear tickets: the script \<open>create_linear_tickets.py\<close>\<close>

text \<open>
  The script reads ticket definitions, creates one remote issue per ticket through a
  GraphQL endpoint, wires up "blocks" relations and writes a mapping file.  The remote
  service, the terminal, the clock and the output file are the only effects.  They are
  modelled as follows.

  \<^item> The remote service is a parameter \<open>remote\<close>: it answers a request in a state of the
    outside world \<open>'w\<close> and returns the reply and the next state.  Nothing is assumed
    about it.
  \<^item> Every function returns, next to its value, the list of events it caused, in the
    order they happened: a printed line, a request with its reply, a sleep, a write of
    the output file.
  \<^item> A Python exception is a value: the message of the exception, in the left summand.

  Python strings are character lists; \<open>str.lower\<close> is taken on the letters A to Z.
  Tickets are dictionaries in the source; the record below has one field per key the
  script reads, optional where the script reads the key with \<open>.get\<close>, with the types of
  the script's data model.
\<close>

subsection \<open>Strings\<close>

definition lower_char :: "char \<Rightarrow> char" where
  "lower_char c =
     (case map_of (zip ''ABCDEFGHIJKLMNOPQRSTUVWXYZ'' ''abcdefghijklmnopqrstuvwxyz'') c of
        Some d \<Rightarrow> d
      | None \<Rightarrow> c)"

definition lower :: "string \<Rightarrow> string" where
  "lower s = map lower_char s"

fun join :: "string \<Rightarrow> string list \<Rightarrow> string" where
  "join sep [] = []"
| "join sep [x] = x"
| "join sep (x # y # ys) = x @ sep @ join sep (y # ys)"

fun str_nat :: "nat \<Rightarrow> string" where
  "str_nat n =
     (if n < 10 then [''0123456789'' ! n]
      else str_nat (n div 10) @ [''0123456789'' ! (n mod 10)])"

declare str_nat.simps [simp del]

definition str_int :: "int \<Rightarrow> string" where
  "str_int i = (if i < 0 then ''-'' @ str_nat (nat (- i)) else str_nat (nat i))"

text \<open>\<open>d.get(key, default)\<close> on an optional field.\<close>

definition dict_get :: "'a option \<Rightarrow> 'a \<Rightarrow> 'a" where
  "dict_get v d = (case v of None \<Rightarrow> d | Some x \<Rightarrow> x)"

subsection \<open>Configuration\<close>

definition DEFAULT_STATE :: string where
  "DEFAULT_STATE = ''Backlog''"

text \<open>The delay is 0.5 seconds in the source; it is kept in milliseconds.\<close>

definition RATE_LIMIT_DELAY :: nat where
  "RATE_LIMIT_DELAY = 500"

text \<open>Linear's priorities: 0 no priority, 1 Urgent, 2 High, 3 Normal, 4 Low.\<close>

definition PRIORITY_MAP :: "int \<rightharpoonup> int" where
  "PRIORITY_MAP = [1 \<mapsto> 1, 2 \<mapsto> 2, 3 \<mapsto> 3, 4 \<mapsto> 4]"

subsection \<open>Data\<close>

record ticket =
  tid :: string
  title :: string
  description :: string
  phase :: "string option"
  labels :: "string list option"
  priority :: "int option"
  dependencies :: "string list option"
  spec_refs :: "string list option"

record ticket_result =
  json_id :: string
  linear_id :: string
  ident :: string
  url :: string

text \<open>The issue object of an \<open>issueCreate\<close> reply.\<close>

record issue =
  issue_id :: string
  issue_identifier :: string
  issue_url :: string

text \<open>The \<open>input\<close> variable of an \<open>issueCreate\<close> request; an absent key is \<open>None\<close>.\<close>

record issue_input =
  teamId :: string
  in_title :: string
  in_description :: string
  stateId :: "string option"
  in_priority :: "int option"
  labelIds :: "string list option"
  projectId :: "string option"

type_synonym exn = string

datatype request =
    Get_labels string
  | Get_projects string
  | Get_workflow_states string
  | Label_create string string "string option"
  | Project_create "string list" string
  | Issue_create issue_input
  | Relation_create string string string

text \<open>
  What \<open>_graphql_request\<close> can give back: an exception (no API key, transport error,
  HTTP error status, GraphQL errors), or the data of one operation.  Nodes are pairs
  (name, id).  A payload object the schema allows to be null is an option.  Data of
  another operation than the one asked for lacks the key the caller reads, so the
  caller's \<open>.get\<close> defaults apply.
\<close>

datatype reply =
    Raised exn
  | Labels_data "(string \<times> string) list"
  | Projects_data "(string \<times> string) list"
  | States_data "(string \<times> string) list"
  | Label_created bool "string option"
  | Project_created bool "string option"
  | Issue_created bool "issue option"
  | Relation_created bool

datatype event =
    Print string
  | Call request reply
  | Sleep nat
  | Write_file string "ticket_result list"

type_synonym 'w remote = "request \<Rightarrow> 'w \<Rightarrow> reply \<times> 'w"

subsection \<open>Requests\<close>

definition graphql_request ::
  "'w remote \<Rightarrow> request \<Rightarrow> 'w \<Rightarrow> (exn + reply) \<times> event list \<times> 'w" where
  "graphql_request remote q w =
     (let (r, w') = remote q w
      in ((case r of Raised e \<Rightarrow> Inl e | _ \<Rightarrow> Inr r), [Call q r], w'))"

text \<open>\<open>if x:\<close> on an optional string or list: absent and empty are both false.\<close>

definition truthy :: "'a list option \<Rightarrow> 'a list option" where
  "truthy v = (case v of None \<Rightarrow> None | Some x \<Rightarrow> if x = [] then None else Some x)"

text \<open>What a caller reads out of the data of a creation reply.\<close>

definition none_subscript :: exn where
  "none_subscript = CHR 0x27 # ''NoneType'' @ CHR 0x27 # '' object is not subscriptable''"

definition label_payload :: "string \<Rightarrow> reply \<Rightarrow> exn + string" where
  "label_payload name data =
     (case data of
        Label_created success lab \<Rightarrow>
          (if \<not> success then Inl (''Failed to create label: '' @ name)
           else (case lab of None \<Rightarrow> Inl none_subscript | Some i \<Rightarrow> Inr i))
      | _ \<Rightarrow> Inl (''Failed to create label: '' @ name))"

definition project_payload :: "string \<Rightarrow> reply \<Rightarrow> exn + string" where
  "project_payload name data =
     (case data of
        Project_created success proj \<Rightarrow>
          (if \<not> success then Inl (''Failed to create project: '' @ name)
           else (case proj of None \<Rightarrow> Inl none_subscript | Some i \<Rightarrow> Inr i))
      | _ \<Rightarrow> Inl (''Failed to create project: '' @ name))"

definition issue_payload :: "string \<Rightarrow> reply \<Rightarrow> exn + issue option" where
  "issue_payload ttl data =
     (case data of
        Issue_created success iss \<Rightarrow>
          (if \<not> success then Inl (''Failed to create issue: '' @ ttl) else Inr iss)
      | _ \<Rightarrow> Inl (''Failed to create issue: '' @ ttl))"

definition relation_payload :: "reply \<Rightarrow> bool" where
  "relation_payload data = (case data of Relation_created success \<Rightarrow> success | _ \<Rightarrow> False)"

definition label_nodes :: "reply \<Rightarrow> (string \<times> string) list" where
  "label_nodes data = (case data of Labels_data nodes \<Rightarrow> nodes | _ \<Rightarrow> [])"

definition project_nodes :: "reply \<Rightarrow> (string \<times> string) list" where
  "project_nodes data = (case data of Projects_data nodes \<Rightarrow> nodes | _ \<Rightarrow> [])"

definition state_nodes :: "reply \<Rightarrow> (string \<times> string) list" where
  "state_nodes data = (case data of States_data nodes \<Rightarrow> nodes | _ \<Rightarrow> [])"

definition create_label ::
  "'w remote \<Rightarrow> string \<Rightarrow> string \<Rightarrow> string option \<Rightarrow> 'w \<Rightarrow> (exn + string) \<times> event list \<times> 'w" where
  "create_label remote team_id name color w =
     (case graphql_request remote (Label_create team_id name (truthy color)) w of
        (res, ev, w') \<Rightarrow>
          ((case res of Inl e \<Rightarrow> Inl e | Inr data \<Rightarrow> label_payload name data), ev, w'))"

definition create_issue ::
  "'w remote \<Rightarrow> string \<Rightarrow> string \<Rightarrow> string \<Rightarrow> string option \<Rightarrow> int option \<Rightarrow>
   string list option \<Rightarrow> string option \<Rightarrow> 'w \<Rightarrow> (exn + issue option) \<times> event list \<times> 'w" where
  "create_issue remote team_id ttl descr state_id prio label_ids project_id w =
     (let input_data = \<lparr> teamId = team_id, in_title = ttl, in_description = descr,
                          stateId = truthy state_id, in_priority = prio,
                          labelIds = truthy label_ids, projectId = truthy project_id \<rparr>
      in (case graphql_request remote (Issue_create input_data) w of
            (res, ev, w') \<Rightarrow>
              ((case res of Inl e \<Rightarrow> Inl e | Inr data \<Rightarrow> issue_payload ttl data), ev, w')))"

definition create_issue_relation ::
  "'w remote \<Rightarrow> string \<Rightarrow> string \<Rightarrow> string \<Rightarrow> 'w \<Rightarrow> (exn + bool) \<times> event list \<times> 'w" where
  "create_issue_relation remote issue related relation_type w =
     (case graphql_request remote (Relation_create issue related relation_type) w of
        (res, ev, w') \<Rightarrow>
          ((case res of Inl e \<Rightarrow> Inl e | Inr data \<Rightarrow> Inr (relation_payload data)), ev, w'))"

subsection \<open>Loops\<close>

text \<open>
  A \<open>for\<close> loop whose body cannot leave the loop: the body takes the loop's variables
  and the world, and gives them back with the events of one round.
\<close>

fun for_each ::
  "('a \<Rightarrow> 's \<Rightarrow> 'w \<Rightarrow> 's \<times> event list \<times> 'w) \<Rightarrow> 'a list \<Rightarrow> 's \<Rightarrow> 'w \<Rightarrow> 's \<times> event list \<times> 'w" where
  "for_each body [] s w = (s, [], w)"
| "for_each body (x # xs) s w =
     (case body x s w of
        (s1, ev1, w1) \<Rightarrow>
          (case for_each body xs s1 w1 of (s2, ev2, w2) \<Rightarrow> (s2, ev1 @ ev2, w2)))"

subsection \<open>Labels, projects, workflow states\<close>

fun labels_loop ::
  "'w remote \<Rightarrow> string \<Rightarrow> string list \<Rightarrow> (string \<rightharpoonup> string) \<Rightarrow> (string \<rightharpoonup> string) \<Rightarrow> 'w \<Rightarrow>
   (exn + (string \<rightharpoonup> string)) \<times> event list \<times> 'w" where
  "labels_loop remote team_id [] existing result w = (Inr result, [], w)"
| "labels_loop remote team_id (name # names) existing result w =
     (let name_lower = lower name
      in (case existing name_lower of
            Some i \<Rightarrow> labels_loop remote team_id names existing (result(name \<mapsto> i)) w
          | None \<Rightarrow>
              (case create_label remote team_id name None w of
                 (Inl e, ev, w1) \<Rightarrow> (Inl e, ev, w1)
               | (Inr label_id, ev, w1) \<Rightarrow>
                   (case labels_loop remote team_id names (existing(name_lower \<mapsto> label_id))
                           (result(name \<mapsto> label_id)) w1 of
                      (r, ev2, w2) \<Rightarrow> (r, ev @ Sleep RATE_LIMIT_DELAY # ev2, w2)))))"

text \<open>A dictionary comprehension over nodes: a later node with the same key wins.\<close>

definition dict_of :: "('k \<times> 'v) list \<Rightarrow> ('k \<rightharpoonup> 'v)" where
  "dict_of kvs = fold (\<lambda>(k, v) m. m(k \<mapsto> v)) kvs Map.empty"

definition existing_labels :: "reply \<Rightarrow> (string \<rightharpoonup> string)" where
  "existing_labels data = dict_of (map (\<lambda>(name, i). (lower name, i)) (label_nodes data))"

definition get_or_create_labels ::
  "'w remote \<Rightarrow> string \<Rightarrow> string list \<Rightarrow> 'w \<Rightarrow> (exn + (string \<rightharpoonup> string)) \<times> event list \<times> 'w" where
  "get_or_create_labels remote team_id label_names w =
     (case graphql_request remote (Get_labels team_id) w of
        (Inl e, ev, w1) \<Rightarrow> (Inl e, ev, w1)
      | (Inr data, ev, w1) \<Rightarrow>
          (case labels_loop remote team_id label_names (existing_labels data) Map.empty w1 of
             (r, ev2, w2) \<Rightarrow> (r, ev @ ev2, w2)))"

definition get_or_create_project ::
  "'w remote \<Rightarrow> string \<Rightarrow> string \<Rightarrow> 'w \<Rightarrow> (exn + string) \<times> event list \<times> 'w" where
  "get_or_create_project remote team_id project_name w =
     (case graphql_request remote (Get_projects team_id) w of
        (Inl e, ev, w1) \<Rightarrow> (Inl e, ev, w1)
      | (Inr data, ev, w1) \<Rightarrow>
          (case find (\<lambda>(name, i). lower name = lower project_name) (project_nodes data) of
             Some (name, i) \<Rightarrow> (Inr i, ev, w1)
           | None \<Rightarrow>
               (case graphql_request remote (Project_create [team_id] project_name) w1 of
                  (res, ev2, w2) \<Rightarrow>
                    ((case res of Inl e \<Rightarrow> Inl e | Inr data2 \<Rightarrow> project_payload project_name data2),
                     ev @ ev2, w2))))"

text \<open>The value is the list of nodes; the dictionary the source builds is \<open>dict_of\<close> of it.\<close>

definition get_workflow_states ::
  "'w remote \<Rightarrow> string \<Rightarrow> 'w \<Rightarrow> (exn + (string \<times> string) list) \<times> event list \<times> 'w" where
  "get_workflow_states remote team_id w =
     (case graphql_request remote (Get_workflow_states team_id) w of
        (res, ev, w1) \<Rightarrow>
          ((case res of Inl e \<Rightarrow> Inl e | Inr data \<Rightarrow> Inr (state_nodes data)), ev, w1))"

subsection \<open>Ticket processing\<close>

definition format_description :: "ticket \<Rightarrow> string \<Rightarrow> string" where
  "format_description ticket github_base_url =
     (let refs = dict_get (spec_refs ticket) [];
          deps = dict_get (dependencies ticket) []
      in join [CHR 0x0A]
           ([description ticket, []] @
            (if refs \<noteq> []
             then [''## Spec References''] @
                  map (\<lambda>ref. ''- ['' @ ref @ '']('' @ github_base_url @ ''/'' @ ref @ '')'') refs @
                  [[]]
             else []) @
            (if deps \<noteq> []
             then [''## Dependencies'', ''Blocked by: '' @ join '', '' deps, []]
             else []) @
            [''---'',
             ''*Phase: '' @ dict_get (phase ticket) ''unknown'' @ ''*'',
             ''*Source: lichess_tickets.json ('' @ tid ticket @ '')*'']))"

definition collect_all_labels :: "ticket list \<Rightarrow> string set" where
  "collect_all_labels tickets =
     fold (\<lambda>ticket acc.
             let acc1 = fold insert (dict_get (labels ticket) []) acc;
                 ph = dict_get (phase ticket) []
             in if ph \<noteq> [] then insert ph acc1 else acc1)
          tickets {}"

definition filter_tickets_by_phase :: "ticket list \<Rightarrow> string option \<Rightarrow> ticket list" where
  "filter_tickets_by_phase tickets ph =
     (case truthy ph of
        None \<Rightarrow> tickets
      | Some p \<Rightarrow> filter (\<lambda>t. phase t = Some p) tickets)"

definition ticket_priority :: "ticket \<Rightarrow> int" where
  "ticket_priority ticket = dict_get (PRIORITY_MAP (dict_get (priority ticket) 3)) 3"

definition ticket_label_ids :: "(string \<rightharpoonup> string) \<Rightarrow> ticket \<Rightarrow> string list" where
  "ticket_label_ids label_map ticket =
     (let ticket_labels = dict_get (labels ticket) [];
          ph = dict_get (phase ticket) [];
          ticket_labels = (if ph \<noteq> [] then ticket_labels @ [ph] else ticket_labels)
      in map (\<lambda>l. the (label_map l)) (filter (\<lambda>l. label_map l \<noteq> None) ticket_labels))"

text \<open>
  The body of the loop of \<open>create_tickets_batch\<close>; \<open>n\<close> is \<open>len(tickets)\<close>, the loop's
  variables are \<open>results\<close> and \<open>id_map\<close>.  Reading \<open>issue["id"]\<close> of a null issue raises a
  \<open>TypeError\<close>, which the \<open>except\<close> clause catches like any other exception.
\<close>

definition create_ticket ::
  "'w remote \<Rightarrow> string \<Rightarrow> (string \<rightharpoonup> string) \<Rightarrow> string \<Rightarrow> string option \<Rightarrow> string \<Rightarrow> bool \<Rightarrow>
   nat \<Rightarrow> nat \<times> ticket \<Rightarrow> ticket_result list \<times> (string \<rightharpoonup> string) \<Rightarrow> 'w \<Rightarrow>
   (ticket_result list \<times> (string \<rightharpoonup> string)) \<times> event list \<times> 'w" where
  "create_ticket remote team_id label_map state_id project_id github_base_url dry_run n it acc w =
     (case (it, acc) of ((i, ticket), (results, id_map)) \<Rightarrow>
        (let jid = tid ticket;
             ttl = title ticket;
             descr = format_description ticket github_base_url;
             prio = ticket_priority ticket;
             label_ids = ticket_label_ids label_map ticket;
             line = Print (''['' @ str_nat (i + 1) @ ''/'' @ str_nat n @ ''] '' @ jid @ '': '' @
                           take 50 ttl @ ''...'')
         in if dry_run
            then ((results @ [\<lparr> json_id = jid, linear_id = ''dry-run'',
                                ident = ''DRY-'' @ str_nat (i + 1),
                                url = ''https://linear.app/dry-run'' \<rparr>],
                   id_map(jid \<mapsto> ''dry-run-'' @ jid)),
                  [line,
                   Print (''  Would create with '' @ str_nat (length label_ids) @
                          '' labels, priority '' @ str_int prio)],
                  w)
            else (case create_issue remote team_id ttl descr (Some state_id) (Some prio)
                         (Some label_ids) project_id w of
                    (Inl e, ev, w1) \<Rightarrow> ((results, id_map), line # ev @ [Print (''  ERROR: '' @ e)], w1)
                  | (Inr None, ev, w1) \<Rightarrow>
                      ((results, id_map), line # ev @ [Print (''  ERROR: '' @ none_subscript)], w1)
                  | (Inr (Some iss), ev, w1) \<Rightarrow>
                      ((results @ [\<lparr> json_id = jid, linear_id = issue_id iss,
                                    ident = issue_identifier iss, url = issue_url iss \<rparr>],
                        id_map(jid \<mapsto> issue_id iss)),
                       line # ev @
                       [Print (''  Created: '' @ issue_identifier iss @ '' - '' @ issue_url iss),
                        Sleep RATE_LIMIT_DELAY],
                       w1))))"

definition create_tickets_batch ::
  "'w remote \<Rightarrow> ticket list \<Rightarrow> string \<Rightarrow> (string \<rightharpoonup> string) \<Rightarrow> string \<Rightarrow> string option \<Rightarrow>
   string \<Rightarrow> bool \<Rightarrow> 'w \<Rightarrow> (ticket_result list \<times> (string \<rightharpoonup> string)) \<times> event list \<times> 'w" where
  "create_tickets_batch remote tickets team_id label_map state_id project_id github_base_url
       dry_run w =
     for_each (create_ticket remote team_id label_map state_id project_id github_base_url dry_run
                 (length tickets))
       (enumerate 0 tickets) ([], Map.empty) w"

text \<open>The body of the inner loop of \<open>create_dependency_relations\<close>, over \<open>deps\<close>.\<close>

definition relate_dep ::
  "'w remote \<Rightarrow> bool \<Rightarrow> (string \<rightharpoonup> string) \<Rightarrow> string \<Rightarrow> string \<Rightarrow> string \<Rightarrow> nat \<Rightarrow> 'w \<Rightarrow>
   nat \<times> event list \<times> 'w" where
  "relate_dep remote dry_run id_map jid issue dep_id count w =
     (case id_map dep_id of
        None \<Rightarrow>
          (count,
           [Print (''  Warning: Dependency '' @ dep_id @ '' not found for '' @ jid)], w)
      | Some blocking_issue_id \<Rightarrow>
          (if dry_run
           then (count, [Print (''  Would create: '' @ dep_id @ '' blocks '' @ jid)], w)
           else (case create_issue_relation remote blocking_issue_id issue ''blocks'' w of
                   (Inl e, ev, w1) \<Rightarrow>
                     (count,
                      ev @ [Print (''  ERROR creating relation '' @ dep_id @ '' -> '' @ jid @
                                   '': '' @ e)],
                      w1)
                 | (Inr ok, ev, w1) \<Rightarrow>
                     (count + 1,
                      ev @ [Print (''  Created relation: '' @ dep_id @ '' blocks '' @ jid),
                            Sleep RATE_LIMIT_DELAY],
                      w1))))"

text \<open>The body of the outer loop, over \<open>tickets\<close>.\<close>

definition relate_ticket ::
  "'w remote \<Rightarrow> bool \<Rightarrow> (string \<rightharpoonup> string) \<Rightarrow> ticket \<Rightarrow> nat \<Rightarrow> 'w \<Rightarrow> nat \<times> event list \<times> 'w" where
  "relate_ticket remote dry_run id_map ticket count w =
     (let jid = tid ticket;
          deps = dict_get (dependencies ticket) []
      in if deps = [] then (count, [], w)
         else (case id_map jid of
                 None \<Rightarrow> (count, [], w)
               | Some issue \<Rightarrow>
                   for_each (relate_dep remote dry_run id_map jid issue) deps count w))"

definition create_dependency_relations ::
  "'w remote \<Rightarrow> ticket list \<Rightarrow> (string \<rightharpoonup> string) \<Rightarrow> bool \<Rightarrow> 'w \<Rightarrow> nat \<times> event list \<times> 'w" where
  "create_dependency_relations remote tickets id_map dry_run w =
     for_each (relate_ticket remote dry_run id_map) tickets 0 w"

text \<open>Writing the file is taken to succeed; the JSON text is the list of records.\<close>

definition save_results :: "ticket_result list \<Rightarrow> string \<Rightarrow> event list" where
  "save_results results output_path =
     [Write_file output_path results,
      Print (CHR 0x0A # ''Results saved to: '' @ output_path)]"

subsection \<open>The main program\<close>

record args =
  arg_dry_run :: bool
  arg_phase :: "string option"
  arg_skip_relations :: bool
  arg_input :: string
  arg_output :: string
  arg_team_id :: string
  arg_project :: string
  arg_github_url :: string

text \<open>
  What the Python runtime decides and the script does not: the order in which a set is
  iterated, the sorted list of a set of strings, and the text \<open>repr\<close> prints for a list
  of strings.
\<close>

record runtime =
  set_list :: "string set \<Rightarrow> string list"
  sorted_list :: "string set \<Rightarrow> string list"
  show_list :: "string list \<Rightarrow> string"

text \<open>The keys of a dictionary comprehension, in the order of their first insertion.\<close>

definition dict_keys :: "('k \<times> 'v) list \<Rightarrow> 'k list" where
  "dict_keys kvs = rev (remdups (rev (map fst kvs)))"

text \<open>
  The set-up of \<open>main\<close> between collecting the labels and creating the tickets.  The
  value is \<open>None\<close> when \<open>main\<close> returns because the default workflow state is missing,
  and the label map, state id and project id otherwise.
\<close>

definition main_setup ::
  "runtime \<Rightarrow> 'w remote \<Rightarrow> args \<Rightarrow> string set \<Rightarrow> 'w \<Rightarrow>
   (exn + ((string \<rightharpoonup> string) \<times> string \<times> string option) option) \<times> event list \<times> 'w" where
  "main_setup rt remote a all_labels w =
     (if \<not> arg_dry_run a
      then (case get_or_create_labels remote (arg_team_id a) (set_list rt all_labels) w of
              (Inl e, ev1, w1) \<Rightarrow> (Inl e, Print (CHR 0x0A # ''Setting up labels...'') # ev1, w1)
            | (Inr label_map, ev1, w1) \<Rightarrow>
                (case get_workflow_states remote (arg_team_id a) w1 of
                   (Inl e, ev2, w2) \<Rightarrow>
                     (Inl e,
                      Print (CHR 0x0A # ''Setting up labels...'') # ev1 @
                      Print ''Getting workflow states...'' # ev2, w2)
                 | (Inr states, ev2, w2) \<Rightarrow>
                     (case truthy (dict_of states DEFAULT_STATE) of
                        None \<Rightarrow>
                          (Inr None,
                           Print (CHR 0x0A # ''Setting up labels...'') # ev1 @
                           Print ''Getting workflow states...'' # ev2 @
                           [Print (''ERROR: State '' @ CHR 0x27 # DEFAULT_STATE @ CHR 0x27 #
                                   '' not found. Available: '' @ show_list rt (dict_keys states))],
                           w2)
                      | Some state_id \<Rightarrow>
                          (case get_or_create_project remote (arg_team_id a) (arg_project a) w2 of
                             (res, ev3, w3) \<Rightarrow>
                               ((case res of
                                   Inl e \<Rightarrow> Inl e
                                 | Inr project_id \<Rightarrow> Inr (Some (label_map, state_id, Some project_id))),
                                Print (CHR 0x0A # ''Setting up labels...'') # ev1 @
                                Print ''Getting workflow states...'' # ev2 @
                                Print (''Setting up project: '' @ arg_project a @ ''...'') # ev3,
                                w3)))))
      else (Inr (Some (dict_of (map (\<lambda>(i, l). (l, ''label-'' @ str_nat i))
                                  (enumerate 0 (set_list rt all_labels))),
                       ''dry-run-state'', Some ''dry-run-project'')),
            [], w))"

text \<open>The rest of \<open>main\<close>: tickets, relations, the output file.\<close>

definition main_create ::
  "'w remote \<Rightarrow> args \<Rightarrow> ticket list \<Rightarrow> (string \<rightharpoonup> string) \<Rightarrow> string \<Rightarrow> string option \<Rightarrow> 'w \<Rightarrow>
   event list \<times> 'w" where
  "main_create remote a tickets label_map state_id project_id w =
     (case create_tickets_batch remote tickets (arg_team_id a) label_map state_id project_id
             (arg_github_url a) (arg_dry_run a) w of
        ((results, id_map), ev1, w1) \<Rightarrow>
          (case (if \<not> arg_skip_relations a
                 then (case create_dependency_relations remote tickets id_map (arg_dry_run a) w1 of
                         (relation_count, ev2, w2) \<Rightarrow>
                           (Print (CHR 0x0A # ''Creating dependency relations...'') # ev2 @
                            [Print (''Created '' @ str_nat relation_count @ '' blocking relations'')],
                            w2))
                 else ([], w1)) of
             (ev2, w2) \<Rightarrow>
               (Print (CHR 0x0A # ''Creating '' @ str_nat (length tickets) @ '' tickets...'') # ev1 @
                Print (CHR 0x0A # ''Created '' @ str_nat (length results) @ '' tickets'') # ev2 @
                (if \<not> arg_dry_run a then save_results results (arg_output a) else []) @
                [Print (CHR 0x0A # replicate 60 CHR ''=''), Print ''Done!'',
                 Print (replicate 60 CHR ''='')],
                w2)))"

text \<open>
  \<open>main\<close>, given the parsed arguments and the ticket list \<open>load_tickets\<close> read from the
  input file.  The value is the exception that ended the run, if one did.
\<close>

definition main ::
  "runtime \<Rightarrow> 'w remote \<Rightarrow> args \<Rightarrow> ticket list \<Rightarrow> 'w \<Rightarrow> (exn + unit) \<times> event list \<times> 'w" where
  "main rt remote a loaded w =
     (let banner = [Print (replicate 60 CHR ''=''), Print ''Linear Ticket Creation Script'',
                    Print (replicate 60 CHR ''='')] @
                   (if arg_dry_run a then [Print ''DRY RUN MODE - No tickets will be created'']
                    else []) @
                   [Print (CHR 0x0A # ''Loading tickets from: '' @ arg_input a),
                    Print (''Loaded '' @ str_nat (length loaded) @ '' tickets'')];
          tickets = (if truthy (arg_phase a) \<noteq> None
                     then filter_tickets_by_phase loaded (arg_phase a) else loaded);
          filtered = (if truthy (arg_phase a) \<noteq> None
                      then [Print (''Filtered to '' @ str_nat (length tickets) @ '' tickets for '' @
                                   dict_get (arg_phase a) [])]
                      else [])
      in if tickets = []
         then (Inr (), banner @ filtered @ [Print ''No tickets to create!''], w)
         else (let all_labels = collect_all_labels tickets;
                   found = Print (''Found '' @ str_nat (card all_labels) @ '' unique labels: '' @
                                  show_list rt (sorted_list rt all_labels))
               in (case main_setup rt remote a all_labels w of
                     (Inl e, ev1, w1) \<Rightarrow> (Inl e, banner @ filtered @ found # ev1, w1)
                   | (Inr None, ev1, w1) \<Rightarrow> (Inr (), banner @ filtered @ found # ev1, w1)
                   | (Inr (Some (label_map, state_id, project_id)), ev1, w1) \<Rightarrow>
                       (case main_create remote a tickets label_map state_id project_id w1 of
                          (ev2, w2) \<Rightarrow> (Inr (), banner @ filtered @ found # ev1 @ ev2, w2)))))"

subsection \<open>Reading a trace\<close>

text \<open>The requests of a trace with their replies, in order.\<close>

fun calls :: "event list \<Rightarrow> (request \<times> reply) list" where
  "calls [] = []"
| "calls (Call q r # es) = (q, r) # calls es"
| "calls (e # es) = calls es"

text \<open>
  The request \<open>create_issue\<close> sends for a ticket, as \<open>create_tickets_batch\<close> calls it,
  and the result record of a ticket whose reply reports success and carries an issue.
\<close>

definition issue_request ::
  "string \<Rightarrow> (string \<rightharpoonup> string) \<Rightarrow> string \<Rightarrow> string option \<Rightarrow> string \<Rightarrow> ticket \<Rightarrow> request" where
  "issue_request team_id label_map state_id project_id github_base_url t =
     Issue_create \<lparr> teamId = team_id, in_title = title t,
                    in_description = format_description t github_base_url,
                    stateId = truthy (Some state_id),
                    in_priority = Some (ticket_priority t),
                    labelIds = truthy (Some (ticket_label_ids label_map t)),
                    projectId = truthy project_id \<rparr>"

definition created :: "ticket \<times> reply \<Rightarrow> ticket_result option" where
  "created tr =
     (case tr of
        (t, Issue_created True (Some iss)) \<Rightarrow>
          Some \<lparr> json_id = tid t, linear_id = issue_id iss, ident = issue_identifier iss,
                 url = issue_url iss \<rparr>
      | _ \<Rightarrow> None)"

text \<open>The id map that assigning \<open>id_map[json_id] = linear_id\<close> result by result builds.\<close>

definition id_map_of :: "ticket_result list \<Rightarrow> (string \<rightharpoonup> string)" where
  "id_map_of results = map_of (rev (map (\<lambda>r. (json_id r, linear_id r)) results))"

definition is_error_line :: "event \<Rightarrow> bool" where
  "is_error_line e = (case e of Print s \<Rightarrow> prefix ''  ERROR: '' s | _ \<Rightarrow> False)"

section \<open>Properties\<close>

subsection \<open>Loops and traces\<close>

lemma calls_append [simp]: "calls (xs @ ys) = calls xs @ calls ys"
  by (induction xs rule: calls.induct) auto

text \<open>
  An invariant of a loop: it holds of nothing processed, and each round of the body
  keeps it; then it holds of the whole list at the end.
\<close>

lemma for_each_invariant_aux:
  assumes step: "\<And>don x s tr w s' ev w'.
    I don s tr w \<Longrightarrow> body x s w = (s', ev, w') \<Longrightarrow> I (don @ [x]) s' (tr @ ev) w'"
  shows "I don s0 tr0 w0 \<Longrightarrow> for_each body xs s0 w0 = (s, tr, w) \<Longrightarrow>
    I (don @ xs) s (tr0 @ tr) w"
proof (induction xs arbitrary: don s0 tr0 w0 s tr w)
  case Nil
  then show ?case by simp
next
  case (Cons x xs)
  obtain s1 ev1 w1 where b: "body x s0 w0 = (s1, ev1, w1)"
    by (cases "body x s0 w0") auto
  obtain s2 ev2 w2 where r: "for_each body xs s1 w1 = (s2, ev2, w2)"
    by (cases "for_each body xs s1 w1") auto
  from Cons.prems(2) b r have eq: "s = s2" "tr = ev1 @ ev2" "w = w2" by auto
  have "I (don @ [x]) s1 (tr0 @ ev1) w1" using step[OF Cons.prems(1) b] .
  from Cons.IH[OF this r] show ?case using eq by simp
qed

lemma for_each_invariant:
  assumes "I [] s0 [] w0"
    and "\<And>don x s tr w s' ev w'.
      I don s tr w \<Longrightarrow> body x s w = (s', ev, w') \<Longrightarrow> I (don @ [x]) s' (tr @ ev) w'"
    and "for_each body xs s0 w0 = (s, tr, w)"
  shows "I xs s tr w"
  using for_each_invariant_aux[where I=I and don="[]" and ?tr0.0="[]",
      OF assms(2) assms(1) assms(3)]
  by simp

subsection \<open>Priorities\<close>

text \<open>
  C3.  The priority sent for a ticket is a total function of the ticket's priority
  field: 1, 2, 3 and 4 are kept (Urgent, High, Normal, Low), and a missing priority or
  any other number gives 3 (Normal).
\<close>

theorem priority_mapping:
  "ticket_priority t =
     (case priority t of None \<Rightarrow> 3 | Some p \<Rightarrow> if p \<in> {1, 2, 3, 4} then p else 3)"
  by (simp add: ticket_priority_def dict_get_def PRIORITY_MAP_def split: option.splits)

theorem priority_mapping_witness:
  "ticket_priority \<lparr> tid = ''LIC-1'', title = ''t'', description = ''d'', phase = None,
       labels = None, priority = Some 2, dependencies = None, spec_refs = None \<rparr> = 2
   \<and> ticket_priority \<lparr> tid = ''LIC-1'', title = ''t'', description = ''d'', phase = None,
       labels = None, priority = Some 7, dependencies = None, spec_refs = None \<rparr> = 3
   \<and> ticket_priority \<lparr> tid = ''LIC-1'', title = ''t'', description = ''d'', phase = None,
       labels = None, priority = None, dependencies = None, spec_refs = None \<rparr> = 3"
  using priority_mapping [of "\<lparr> tid = ''LIC-1'', title = ''t'', description = ''d'', phase = None,
       labels = None, priority = Some 2, dependencies = None, spec_refs = None \<rparr>"]
    priority_mapping [of "\<lparr> tid = ''LIC-1'', title = ''t'', description = ''d'', phase = None,
       labels = None, priority = Some 7, dependencies = None, spec_refs = None \<rparr>"]
    priority_mapping [of "\<lparr> tid = ''LIC-1'', title = ''t'', description = ''d'', phase = None,
       labels = None, priority = None, dependencies = None, spec_refs = None \<rparr>"]
  by simp

subsection \<open>Collected labels\<close>

lemma fold_union_step:
  assumes "\<And>t A. F t A = A \<union> G t"
  shows "fold F ts A = A \<union> (\<Union>t\<in>set ts. G t)"
proof (induction ts arbitrary: A)
  case Nil
  show ?case by simp
next
  case (Cons t ts)
  have "fold F (t # ts) A = fold F ts (A \<union> G t)" by (simp add: assms)
  also have "\<dots> = (A \<union> G t) \<union> (\<Union>t\<in>set ts. G t)" by (rule Cons.IH)
  also have "\<dots> = A \<union> (\<Union>t\<in>set (t # ts). G t)" by (simp add: Un_assoc)
  finally show ?case .
qed

lemma collect_step:
  "(let acc1 = fold insert (dict_get (labels t) []) A;
        ph = dict_get (phase t) []
    in if ph \<noteq> [] then insert ph acc1 else acc1)
   = A \<union> (set (dict_get (labels t) []) \<union>
          (case phase t of None \<Rightarrow> {} | Some p \<Rightarrow> if p = [] then {} else {p}))"
proof -
  have f: "fold insert xs B = set xs \<union> B" for xs and B :: "string set"
    by (rule List.union_set_fold [symmetric])
  show ?thesis
  proof (cases "phase t")
    case None
    then show ?thesis by (simp add: Let_def f dict_get_def Un_commute)
  next
    case (Some p)
    then show ?thesis by (simp add: Let_def f dict_get_def Un_commute)
  qed
qed

text \<open>
  C9.  The collected labels are the union, over the tickets, of the ticket's explicit
  labels and its phase name; a ticket without a phase, or with the empty string as
  phase, has no phase name.  The result is a set, so duplicates are collapsed.
\<close>

theorem collect_all_labels_union:
  "collect_all_labels tickets =
     (\<Union>t\<in>set tickets. set (dict_get (labels t) []) \<union>
          (case phase t of None \<Rightarrow> {} | Some p \<Rightarrow> if p = [] then {} else {p}))"
proof -
  have "collect_all_labels tickets = {} \<union>
     (\<Union>t\<in>set tickets. set (dict_get (labels t) []) \<union>
          (case phase t of None \<Rightarrow> {} | Some p \<Rightarrow> if p = [] then {} else {p}))"
    unfolding collect_all_labels_def
    by (rule fold_union_step) (rule collect_step)
  then show ?thesis by simp
qed


theorem collect_all_labels_union_witness:
  "collect_all_labels
     [\<lparr> tid = ''LIC-1'', title = ''t'', description = ''d'', phase = Some ''phase-0'',
        labels = Some [''bug'', ''ui''], priority = None, dependencies = None,
        spec_refs = None \<rparr>,
      \<lparr> tid = ''LIC-2'', title = ''t'', description = ''d'', phase = Some ''phase-0'',
        labels = Some [''bug''], priority = None, dependencies = None, spec_refs = None \<rparr>]
   = {''bug'', ''ui'', ''phase-0''}"
  using collect_all_labels_union [of
     "[\<lparr> tid = ''LIC-1'', title = ''t'', description = ''d'', phase = Some ''phase-0'',
        labels = Some [''bug'', ''ui''], priority = None, dependencies = None,
        spec_refs = None \<rparr>,
      \<lparr> tid = ''LIC-2'', title = ''t'', description = ''d'', phase = Some ''phase-0'',
        labels = Some [''bug''], priority = None, dependencies = None, spec_refs = None \<rparr>]"]
  by (simp add: dict_get_def) blast

end
